theory Spec2Isabelle
  imports Complex_Main
begin

section \<open>Python values\<close>

text \<open>
  The formatter of \<^verbatim>\<open>src/plotly_formatter/formatter.py\<close> is dynamically typed: every
  keyword argument may hold any Python value, font options are dictionaries held by
  reference, and the derived sizes are computed by \<^verbatim>\<open>int(size * ratio)\<close> on Python
  numbers. The model therefore has a small universe of Python values, an explicit store
  of dictionaries, and the IEEE 754 binary64 arithmetic that \<^verbatim>\<open>*\<close> and
  \<^verbatim>\<open>int()\<close> perform on a \<^verbatim>\<open>float\<close>.
\<close>

subsection \<open>Floats\<close>

text \<open>
  A Python \<^verbatim>\<open>float\<close>: \<open>Finite neg m e\<close> is the number \<open>(-1)^neg * m * 2^e\<close>.
  The binary64 values are those with \<open>m < 2^53\<close> and \<open>-1074 \<le> e \<le> 971\<close>
  (\<open>is_double\<close>); a zero keeps its sign.
\<close>

datatype pyfloat = Finite bool nat int | Infinity bool | NaN

fun is_double :: "pyfloat \<Rightarrow> bool" where
  "is_double (Finite neg m e) = (m < 2 ^ 53 \<and> - 1074 \<le> e \<and> e \<le> 971)"
| "is_double (Infinity neg) = True"
| "is_double NaN = True"

text \<open>The number of binary digits of a natural number.\<close>

fun bitlen :: "nat \<Rightarrow> int" where
  "bitlen n = (if n = 0 then 0 else 1 + bitlen (n div 2))"

declare bitlen.simps [simp del]

text \<open>
  Rounding of the exact value \<open>m * 2^e\<close> to binary64, to nearest with ties to even:
  \<open>drop\<close> low bits are cut so that 53 significant bits remain and the exponent does
  not go below \<open>-1074\<close>; a rounded magnitude of \<open>2^1024\<close> or more is an infinity.
\<close>

definition round_float :: "bool \<Rightarrow> nat \<Rightarrow> int \<Rightarrow> pyfloat" where
  "round_float neg m e =
     (if m = 0 then Finite neg 0 0
      else
        let drop = max (bitlen m - 53) (- 1074 - e) in
        if drop \<le> 0 then
          (if bitlen m + e > 1024 then Infinity neg else Finite neg m e)
        else
          let d = nat drop;
              q = m div 2 ^ d;
              r = m mod 2 ^ d;
              half = 2 ^ (d - 1);
              q' = (if r > half \<or> (r = half \<and> odd q) then q + 1 else q)
          in if bitlen q' + (e + drop) > 1024 then Infinity neg
             else Finite neg q' (e + drop))"

text \<open>Float multiplication never raises in Python; it yields infinities and NaN.\<close>

fun float_mul :: "pyfloat \<Rightarrow> pyfloat \<Rightarrow> pyfloat" where
  "float_mul NaN y = NaN"
| "float_mul x NaN = NaN"
| "float_mul (Infinity s) (Infinity t) = Infinity (s \<noteq> t)"
| "float_mul (Infinity s) (Finite t n f) = (if n = 0 then NaN else Infinity (s \<noteq> t))"
| "float_mul (Finite s m e) (Infinity t) = (if m = 0 then NaN else Infinity (s \<noteq> t))"
| "float_mul (Finite s m e) (Finite t n f) = round_float (s \<noteq> t) (m * n) (e + f)"

subsection \<open>Values and errors\<close>

text \<open>\<open>PyRef a\<close> is a reference to the dictionary at address \<open>a\<close> of the store.\<close>

datatype pyval =
    PyNone
  | PyBool bool
  | PyInt int
  | PyFloat pyfloat
  | PyStr string
  | PyRef nat

text \<open>
  The exceptions the constructor can raise. \<open>Unmodelled\<close> is not a Python exception:
  it marks the two places where the model declines to say what Python does
  (\<^verbatim>\<open>int()\<close> of a string, and a reference to no dictionary of the store).
\<close>

datatype py_error = KeyError | TypeError | ValueError | OverflowError | Unmodelled

text \<open>The integer a value stands for in arithmetic: \<^verbatim>\<open>bool\<close> is a subclass of \<^verbatim>\<open>int\<close>.\<close>

fun as_int :: "pyval \<Rightarrow> int option" where
  "as_int (PyInt i) = Some i"
| "as_int (PyBool b) = Some (if b then 1 else 0)"
| "as_int v = None"

text \<open>Conversion of an integer operand to float: correctly rounded, or OverflowError.\<close>

definition int_to_float :: "int \<Rightarrow> py_error + pyfloat" where
  "int_to_float i =
     (case round_float (i < 0) (nat \<bar>i\<bar>) 0 of
        Infinity neg \<Rightarrow> Inl OverflowError
      | f \<Rightarrow> Inr f)"

text \<open>
  The operator \<^verbatim>\<open>*\<close>: exact on integers, rounded when a float takes part, sequence
  repetition for a string and an integer, TypeError otherwise.
\<close>

fun py_mul :: "pyval \<Rightarrow> pyval \<Rightarrow> py_error + pyval" where
  "py_mul (PyFloat x) (PyFloat y) = Inr (PyFloat (float_mul x y))"
| "py_mul (PyFloat x) w =
     (case as_int w of
        None \<Rightarrow> Inl TypeError
      | Some j \<Rightarrow> (case int_to_float j of
                    Inl err \<Rightarrow> Inl err
                  | Inr y \<Rightarrow> Inr (PyFloat (float_mul x y))))"
| "py_mul v (PyFloat y) =
     (case as_int v of
        None \<Rightarrow> Inl TypeError
      | Some i \<Rightarrow> (case int_to_float i of
                    Inl err \<Rightarrow> Inl err
                  | Inr x \<Rightarrow> Inr (PyFloat (float_mul x y))))"
| "py_mul (PyStr s) w =
     (case as_int w of
        None \<Rightarrow> Inl TypeError
      | Some j \<Rightarrow> Inr (PyStr (concat (replicate (nat j) s))))"
| "py_mul v (PyStr s) =
     (case as_int v of
        None \<Rightarrow> Inl TypeError
      | Some i \<Rightarrow> Inr (PyStr (concat (replicate (nat i) s))))"
| "py_mul v w =
     (case (as_int v, as_int w) of
        (Some i, Some j) \<Rightarrow> Inr (PyInt (i * j))
      | _ \<Rightarrow> Inl TypeError)"

text \<open>\<^verbatim>\<open>int(x)\<close> of a float cuts the fraction off, toward zero.\<close>

fun float_trunc :: "pyfloat \<Rightarrow> py_error + int" where
  "float_trunc NaN = Inl ValueError"
| "float_trunc (Infinity neg) = Inl OverflowError"
| "float_trunc (Finite neg m e) =
     (let a = (if 0 \<le> e then int m * 2 ^ nat e else int m div 2 ^ nat (- e))
      in Inr (if neg then - a else a))"

fun py_int :: "pyval \<Rightarrow> py_error + int" where
  "py_int (PyInt i) = Inr i"
| "py_int (PyBool b) = Inr (if b then 1 else 0)"
| "py_int (PyFloat x) = float_trunc x"
| "py_int (PyStr s) = Inl Unmodelled"
| "py_int PyNone = Inl TypeError"
| "py_int (PyRef a) = Inl TypeError"

subsection \<open>The store of dictionaries\<close>

type_synonym pydict = "string \<rightharpoonup> pyval"

type_synonym heap = "pydict list"

text \<open>A dictionary display \<^verbatim>\<open>{...}\<close> creates a new object.\<close>

definition new_dict :: "pydict \<Rightarrow> heap \<Rightarrow> nat \<times> heap" where
  "new_dict d h = (length h, h @ [d])"

text \<open>\<^verbatim>\<open>x[k]\<close>: only a dictionary can be subscripted by a string.\<close>

fun getitem :: "heap \<Rightarrow> pyval \<Rightarrow> string \<Rightarrow> py_error + pyval" where
  "getitem h (PyRef a) k =
     (if a < length h
      then (case (h ! a) k of None \<Rightarrow> Inl KeyError | Some v \<Rightarrow> Inr v)
      else Inl Unmodelled)"
| "getitem h x k = Inl TypeError"

text \<open>\<^verbatim>\<open>x[k] = v\<close>: the dictionary itself is changed, for everyone who holds it.\<close>

fun setitem :: "heap \<Rightarrow> pyval \<Rightarrow> string \<Rightarrow> pyval \<Rightarrow> py_error + heap" where
  "setitem h (PyRef a) k v =
     (if a < length h then Inr (h[a := (h ! a)(k \<mapsto> v)]) else Inl Unmodelled)"
| "setitem h x k v = Inl TypeError"

section \<open>The formatter\<close>

text \<open>The sixteen attributes that \<^verbatim>\<open>__init__\<close> sets, each holding any value.\<close>

record formatter =
  title_font :: pyval
  subtitle_font :: pyval
  subtitle_ratio :: pyval
  axis_title_font :: pyval
  axis_title_ratio :: pyval
  tick_font :: pyval
  tick_font_ratio :: pyval
  legend_font :: pyval
  legend_font_ratio :: pyval
  showgrid :: pyval
  gridcolor :: pyval
  gridwidth :: pyval
  template :: pyval
  title_x :: pyval
  width :: pyval
  height :: pyval

text \<open>The float literals of the defaults, as binary64 values.\<close>

definition float_0_95 :: pyfloat where
  "float_0_95 = Finite False 8556839292003942 (- 53)"

definition float_0_9 :: pyfloat where
  "float_0_9 = Finite False 8106479329266893 (- 53)"

definition float_0_5 :: pyfloat where
  "float_0_5 = Finite False 4503599627370496 (- 53)"

definition default_title_font :: pydict where
  "default_title_font =
     [''size'' \<mapsto> PyInt 24, ''family'' \<mapsto> PyStr ''Arial'', ''color'' \<mapsto> PyStr ''black'']"

definition default_font :: pydict where
  "default_font = [''family'' \<mapsto> PyStr ''Arial'', ''color'' \<mapsto> PyStr ''black'']"

text \<open>
  The display \<^verbatim>\<open>defaults = {...}\<close>: sixteen default values, five of them
  dictionaries that are created anew on every call of the constructor.
\<close>

definition defaults :: "heap \<Rightarrow> formatter \<times> heap" where
  "defaults h =
     (let (a_title, h) = new_dict default_title_font h;
          (a_subtitle, h) = new_dict default_font h;
          (a_axis, h) = new_dict default_font h;
          (a_tick, h) = new_dict default_font h;
          (a_legend, h) = new_dict default_font h
      in (\<lparr> title_font = PyRef a_title,
             subtitle_font = PyRef a_subtitle,
             subtitle_ratio = PyFloat float_0_95,
             axis_title_font = PyRef a_axis,
             axis_title_ratio = PyFloat float_0_9,
             tick_font = PyRef a_tick,
             tick_font_ratio = PyFloat float_0_9,
             legend_font = PyRef a_legend,
             legend_font_ratio = PyFloat float_0_9,
             showgrid = PyBool True,
             gridcolor = PyStr ''LightGray'',
             gridwidth = PyInt 1,
             template = PyStr ''simple_white'',
             title_x = PyFloat float_0_5,
             width = PyInt 3200,
             height = PyInt 800 \<rparr>, h))"

text \<open>\<^verbatim>\<open>kwargs.get(key, value)\<close>\<close>

definition kwargs_get :: "(string \<rightharpoonup> pyval) \<Rightarrow> string \<Rightarrow> pyval \<Rightarrow> pyval" where
  "kwargs_get kwargs key dflt = (case kwargs key of None \<Rightarrow> dflt | Some v \<Rightarrow> v)"

text \<open>
  The loop \<^verbatim>\<open>for key, value in defaults.items(): setattr(self, key, kwargs.get(key, value))\<close>:
  one attribute for each key of \<^verbatim>\<open>defaults\<close>, and for no other key.
\<close>

definition set_attributes :: "(string \<rightharpoonup> pyval) \<Rightarrow> formatter \<Rightarrow> formatter" where
  "set_attributes kwargs dflt =
     \<lparr> title_font = kwargs_get kwargs ''title_font'' (title_font dflt),
       subtitle_font = kwargs_get kwargs ''subtitle_font'' (subtitle_font dflt),
       subtitle_ratio = kwargs_get kwargs ''subtitle_ratio'' (subtitle_ratio dflt),
       axis_title_font = kwargs_get kwargs ''axis_title_font'' (axis_title_font dflt),
       axis_title_ratio = kwargs_get kwargs ''axis_title_ratio'' (axis_title_ratio dflt),
       tick_font = kwargs_get kwargs ''tick_font'' (tick_font dflt),
       tick_font_ratio = kwargs_get kwargs ''tick_font_ratio'' (tick_font_ratio dflt),
       legend_font = kwargs_get kwargs ''legend_font'' (legend_font dflt),
       legend_font_ratio = kwargs_get kwargs ''legend_font_ratio'' (legend_font_ratio dflt),
       showgrid = kwargs_get kwargs ''showgrid'' (showgrid dflt),
       gridcolor = kwargs_get kwargs ''gridcolor'' (gridcolor dflt),
       gridwidth = kwargs_get kwargs ''gridwidth'' (gridwidth dflt),
       template = kwargs_get kwargs ''template'' (template dflt),
       title_x = kwargs_get kwargs ''title_x'' (title_x dflt),
       width = kwargs_get kwargs ''width'' (width dflt),
       height = kwargs_get kwargs ''height'' (height dflt) \<rparr>"


text \<open>The attribute of a formatter by its name; no other attribute is ever set.\<close>

definition getattr :: "formatter \<Rightarrow> string \<Rightarrow> pyval option" where
  "getattr self name =
     (if name = ''title_font'' then Some (title_font self)
      else if name = ''subtitle_font'' then Some (subtitle_font self)
      else if name = ''subtitle_ratio'' then Some (subtitle_ratio self)
      else if name = ''axis_title_font'' then Some (axis_title_font self)
      else if name = ''axis_title_ratio'' then Some (axis_title_ratio self)
      else if name = ''tick_font'' then Some (tick_font self)
      else if name = ''tick_font_ratio'' then Some (tick_font_ratio self)
      else if name = ''legend_font'' then Some (legend_font self)
      else if name = ''legend_font_ratio'' then Some (legend_font_ratio self)
      else if name = ''showgrid'' then Some (showgrid self)
      else if name = ''gridcolor'' then Some (gridcolor self)
      else if name = ''gridwidth'' then Some (gridwidth self)
      else if name = ''template'' then Some (template self)
      else if name = ''title_x'' then Some (title_x self)
      else if name = ''width'' then Some (width self)
      else if name = ''height'' then Some (height self)
      else None)"

text \<open>The expression \<^verbatim>\<open>int(s * ratio)\<close>.\<close>

definition int_product :: "pyval \<Rightarrow> pyval \<Rightarrow> py_error + int" where
  "int_product s ratio =
     (case py_mul s ratio of
        Inl err \<Rightarrow> Inl err
      | Inr p \<Rightarrow> py_int p)"

text \<open>
  The statement \<^verbatim>\<open>target["size"] = int(base["size"] * ratio)\<close>. Python evaluates the
  right-hand side first, then stores; the store is untouched when anything raises.
\<close>

definition assign_size :: "pyval \<Rightarrow> pyval \<Rightarrow> pyval \<Rightarrow> heap \<Rightarrow> py_error + heap" where
  "assign_size target base ratio h =
     (case getitem h base ''size'' of
        Inl err \<Rightarrow> Inl err
      | Inr s \<Rightarrow>
          (case int_product s ratio of
             Inl err \<Rightarrow> Inl err
           | Inr n \<Rightarrow> setitem h target ''size'' (PyInt n)))"

text \<open>
  \<^verbatim>\<open>PlotlyFormatter.__init__(self, **kwargs)\<close>: the defaults, the loop, then the four
  assignments in the order of the source. The result is the formatter or the
  exception, together with the store as the call left it (an exception leaves the
  assignments made before it in place).
\<close>

definition init :: "(string \<rightharpoonup> pyval) \<Rightarrow> heap \<Rightarrow> (py_error + formatter) \<times> heap" where
  "init kwargs h =
     (let (dflt, h0) = defaults h;
          self = set_attributes kwargs dflt
      in case assign_size (subtitle_font self) (title_font self) (subtitle_ratio self) h0 of
           Inl err \<Rightarrow> (Inl err, h0)
         | Inr h1 \<Rightarrow>
       (case assign_size (axis_title_font self) (title_font self) (axis_title_ratio self) h1 of
           Inl err \<Rightarrow> (Inl err, h1)
         | Inr h2 \<Rightarrow>
       (case assign_size (tick_font self) (axis_title_font self) (tick_font_ratio self) h2 of
           Inl err \<Rightarrow> (Inl err, h2)
         | Inr h3 \<Rightarrow>
       (case assign_size (legend_font self) (title_font self) (legend_font_ratio self) h3 of
           Inl err \<Rightarrow> (Inl err, h3)
         | Inr h4 \<Rightarrow> (Inr self, h4)))))"

section \<open>The figure\<close>

text \<open>
  Modelled from the spec: the figure is an object of the external plotting library,
  whose code is not part of the repository. The spec (sections 4.2 and 6) describes it
  as a mutable object with the capabilities "update vertical-axis style, update
  horizontal-axis style, update layout properties, enumerate/mutate annotations",
  each a plain assignment of the values given. The model keeps, for every axis, for
  the layout and for every annotation, the properties by name; a property holds the
  Python value it was given. What the library does with a value beyond keeping it
  (validation, coercion) is not modelled.
\<close>

record figure =
  yaxes :: "pydict list"
  xaxes :: "pydict list"
  layout :: pydict
  annotations :: "pydict list option"

text \<open>\<^verbatim>\<open>fig.update_yaxes(**kw)\<close> sets the given properties on every vertical axis.\<close>

definition update_yaxes :: "pydict \<Rightarrow> figure \<Rightarrow> figure" where
  "update_yaxes kw fig = fig\<lparr>yaxes := map (\<lambda>axis. axis ++ kw) (yaxes fig)\<rparr>"

definition update_xaxes :: "pydict \<Rightarrow> figure \<Rightarrow> figure" where
  "update_xaxes kw fig = fig\<lparr>xaxes := map (\<lambda>axis. axis ++ kw) (xaxes fig)\<rparr>"

definition update_layout :: "pydict \<Rightarrow> figure \<Rightarrow> figure" where
  "update_layout kw fig = fig\<lparr>layout := layout fig ++ kw\<rparr>"

text \<open>The annotations of the layout; none when the layout has no such entry.\<close>

definition annotation_list :: "figure \<Rightarrow> pydict list" where
  "annotation_list fig = (case annotations fig of None \<Rightarrow> [] | Some anns \<Rightarrow> anns)"

text \<open>
  \<^verbatim>\<open>PlotlyFormatter.standardize(self, fig)\<close>, statement by statement: both axis
  updates, the layout update (the line \<^verbatim>\<open># title_x=self.title_x\<close> is a comment), and
  the loop over the annotations when the layout has them.
\<close>

definition standardize :: "formatter \<Rightarrow> figure \<Rightarrow> figure" where
  "standardize self fig =
     (let fig = update_yaxes
                  [''title_font'' \<mapsto> axis_title_font self,
                   ''tickfont'' \<mapsto> tick_font self,
                   ''showgrid'' \<mapsto> showgrid self,
                   ''gridcolor'' \<mapsto> gridcolor self,
                   ''gridwidth'' \<mapsto> gridwidth self] fig;
          fig = update_xaxes
                  [''title_font'' \<mapsto> axis_title_font self,
                   ''tickfont'' \<mapsto> tick_font self,
                   ''showgrid'' \<mapsto> showgrid self,
                   ''gridcolor'' \<mapsto> gridcolor self,
                   ''gridwidth'' \<mapsto> gridwidth self] fig;
          fig = update_layout
                  [''title_font'' \<mapsto> title_font self,
                   ''legend_font'' \<mapsto> legend_font self,
                   ''template'' \<mapsto> template self,
                   ''height'' \<mapsto> height self,
                   ''width'' \<mapsto> width self] fig
      in case annotations fig of
           None \<Rightarrow> fig
         | Some anns \<Rightarrow>
             fig\<lparr>annotations :=
                   Some (map (\<lambda>annotation. annotation(''font'' \<mapsto> subtitle_font self)) anns)\<rparr>)"

text \<open>
  A call \<^verbatim>\<open>self.standardize(fig)\<close> seen on the whole state. The method assigns to
  no attribute of \<^verbatim>\<open>self\<close> and to no entry of a dictionary: the formatter and the
  store come out as they went in, and only the figure is changed.
\<close>

definition standardize_call :: "formatter \<times> heap \<Rightarrow> figure \<Rightarrow> (formatter \<times> heap) \<times> figure" where
  "standardize_call st fig = (st, standardize (fst st) fig)"

text \<open>Any number of calls, one after the other, each on a figure of its own.\<close>

fun standardize_calls :: "formatter \<times> heap \<Rightarrow> figure list \<Rightarrow> (formatter \<times> heap) \<times> figure list" where
  "standardize_calls st [] = (st, [])"
| "standardize_calls st (fig # figs) =
     (let (st1, fig1) = standardize_call st fig;
          (st2, figs2) = standardize_calls st1 figs
      in (st2, fig1 # figs2))"

section \<open>Derived sizes, as the specification words them\<close>

text \<open>
  The specification speaks of the product of a base size and a ratio, cut to an
  integer: "truncating (not rounding)" in one place, "floor" in another. These
  definitions follow its words, on the mathematical value of the product that Python
  computes; they are compared below with what \<open>int_product\<close> returns.
\<close>

text \<open>The real number a finite float stands for.\<close>

fun float_value :: "pyfloat \<Rightarrow> real option" where
  "float_value (Finite neg m e) = Some ((if neg then - 1 else 1) * real m * 2 powi e)"
| "float_value (Infinity neg) = None"
| "float_value NaN = None"

declare float_value.simps [simp del]

text \<open>The real number a Python number stands for; no number for the other values.\<close>

fun py_real :: "pyval \<Rightarrow> real option" where
  "py_real (PyInt i) = Some (real_of_int i)"
| "py_real (PyBool b) = Some (if b then 1 else 0)"
| "py_real (PyFloat x) = float_value x"
| "py_real v = None"

text \<open>The value of \<^verbatim>\<open>s * ratio\<close>, when it is a finite number.\<close>

definition product_value :: "pyval \<Rightarrow> pyval \<Rightarrow> real option" where
  "product_value s ratio =
     (case py_mul s ratio of
        Inl err \<Rightarrow> None
      | Inr p \<Rightarrow> py_real p)"

text \<open>Truncation: the fraction is cut off, toward zero.\<close>

definition truncate_real :: "real \<Rightarrow> int" where
  "truncate_real x = (if 0 \<le> x then \<lfloor>x\<rfloor> else \<lceil>x\<rceil>)"

definition truncated_product :: "pyval \<Rightarrow> pyval \<Rightarrow> int option" where
  "truncated_product s ratio = map_option truncate_real (product_value s ratio)"

definition floored_product :: "pyval \<Rightarrow> pyval \<Rightarrow> int option" where
  "floored_product s ratio = map_option floor (product_value s ratio)"

text \<open>The product is a number that is not negative.\<close>

definition nonneg_product :: "pyval \<Rightarrow> pyval \<Rightarrow> bool" where
  "nonneg_product s ratio = (case product_value s ratio of None \<Rightarrow> False | Some x \<Rightarrow> 0 \<le> x)"

text \<open>
  \<open>n\<close> is the size derived from the base size \<open>s\<close> and the ratio: their product
  cut to an integer toward zero, which is the floor of the product whenever the
  product is not negative.
\<close>

definition derived_size :: "pyval \<Rightarrow> pyval \<Rightarrow> int \<Rightarrow> bool" where
  "derived_size s ratio n \<longleftrightarrow>
     truncated_product s ratio = Some n \<and>
     (nonneg_product s ratio \<longrightarrow> floored_product s ratio = Some n)"

text \<open>
  The size of \<open>font\<close> is an integer: the product of the size of the font \<open>base\<close> and
  the ratio, truncated.
\<close>

definition truncated_size :: "heap \<Rightarrow> pyval \<Rightarrow> pyval \<Rightarrow> pyval \<Rightarrow> bool" where
  "truncated_size h font base ratio =
     (case getitem h font ''size'' of
        Inr (PyInt n) \<Rightarrow>
          (case getitem h base ''size'' of
             Inr s \<Rightarrow> truncated_product s ratio = Some n
           | Inl err \<Rightarrow> False)
      | _ \<Rightarrow> False)"

text \<open>The invariant of the specification, for the four derived fonts of a formatter.\<close>

definition sizes_truncated :: "formatter \<Rightarrow> heap \<Rightarrow> bool" where
  "sizes_truncated self h \<longleftrightarrow>
     truncated_size h (subtitle_font self) (title_font self) (subtitle_ratio self) \<and>
     truncated_size h (axis_title_font self) (title_font self) (axis_title_ratio self) \<and>
     truncated_size h (tick_font self) (axis_title_font self) (tick_font_ratio self) \<and>
     truncated_size h (legend_font self) (title_font self) (legend_font_ratio self)"

text \<open>The five font dictionaries of a formatter are five different objects.\<close>

definition distinct_fonts :: "formatter \<Rightarrow> bool" where
  "distinct_fonts self \<longleftrightarrow>
     distinct [title_font self, subtitle_font self, axis_title_font self,
               tick_font self, legend_font self]"

text \<open>
  The four integers that the four assignments compute, one after the other, from the
  store \<open>h0\<close> in which they start. Each is the truncated product of its base size
  and its ratio. The size of the title font is read three times; when the title
  dictionary is also the dictionary of a derived font assigned before the reading, the
  title size at that time is the integer last written into it.
\<close>

definition computed_sizes :: "formatter \<Rightarrow> heap \<Rightarrow> int \<Rightarrow> int \<Rightarrow> int \<Rightarrow> int \<Rightarrow> bool" where
  "computed_sizes self h0 n1 n2 n3 n4 \<longleftrightarrow>
     (case getitem h0 (title_font self) ''size'' of
        Inl err \<Rightarrow> False
      | Inr s \<Rightarrow>
          truncated_product s (subtitle_ratio self) = Some n1 \<and>
          truncated_product
            (if title_font self = subtitle_font self then PyInt n1 else s)
            (axis_title_ratio self) = Some n2 \<and>
          truncated_product (PyInt n2) (tick_font_ratio self) = Some n3 \<and>
          truncated_product
            (if title_font self = tick_font self then PyInt n3
             else if title_font self = axis_title_font self then PyInt n2
             else if title_font self = subtitle_font self then PyInt n1
             else s)
            (legend_font_ratio self) = Some n4)"

text \<open>
  The size that the dictionary at address \<open>a\<close> ends with, when it is the dictionary of
  a derived font: the one written last, the assignments running in the order
  subtitle, axis title, tick, legend.
\<close>

definition last_written :: "formatter \<Rightarrow> nat \<Rightarrow> int \<Rightarrow> int \<Rightarrow> int \<Rightarrow> int \<Rightarrow> int" where
  "last_written self a n1 n2 n3 n4 =
     (if legend_font self = PyRef a then n4
      else if tick_font self = PyRef a then n3
      else if axis_title_font self = PyRef a then n2
      else n1)"

section \<open>Options on which the constructor succeeds\<close>



text \<open>A figure with one axis each way and two annotations, for the examples.\<close>

definition example_figure :: figure where
  "example_figure =
     \<lparr> yaxes = [Map.empty], xaxes = [Map.empty], layout = Map.empty,
       annotations = Some [[''text'' \<mapsto> PyStr ''a''], [''text'' \<mapsto> PyStr ''b'']] \<rparr>"

section \<open>Truncation\<close>

lemma truncate_real_of_int: "truncate_real (real_of_int i) = i"
  by (simp add: truncate_real_def)

lemma floor_nat_div_pow: "\<lfloor>real m / 2 ^ k\<rfloor> = int m div 2 ^ k"
proof -
  have "real m / 2 ^ k = real_of_int (int m) / real_of_int (2 ^ k)" by simp
  then show ?thesis by (simp only: floor_divide_of_int_eq)
qed

lemma float_trunc_truncates:
  "float_trunc (Finite neg m e) = Inr n \<Longrightarrow>
     map_option truncate_real (float_value (Finite neg m e)) = Some n"
proof (cases "0 \<le> e")
  case True
  assume a: "float_trunc (Finite neg m e) = Inr n"
  have n: "n = (if neg then - (int m * 2 ^ nat e) else int m * 2 ^ nat e)"
    using a True by (auto simp: Let_def)
  have "(if neg then - 1 else 1) * real m * 2 powi e = real_of_int n"
    using True by (simp add: n power_int_def)
  then show ?thesis by (simp add: truncate_real_of_int float_value.simps)
next
  case False
  assume a: "float_trunc (Finite neg m e) = Inr n"
  define k where "k = nat (- e)"
  define v where "v = real m / 2 ^ k"
  have n: "n = (if neg then - (int m div 2 ^ k) else int m div 2 ^ k)"
    using a False by (auto simp: Let_def k_def)
  have val: "(if neg then - 1 else 1) * real m * 2 powi e = (if neg then - v else v)"
    using False by (simp add: power_int_def field_simps k_def v_def)
  have nn: "0 \<le> v" by (simp add: v_def)
  have fl: "\<lfloor>v\<rfloor> = int m div 2 ^ k" by (simp add: v_def floor_nat_div_pow)
  have "truncate_real (if neg then - v else v) = n"
  proof (cases "neg \<and> v \<noteq> 0")
    case True
    then have "- v < 0" using nn by simp
    then have "truncate_real (- v) = \<lceil>- v\<rceil>" by (simp add: truncate_real_def)
    also have "\<dots> = - \<lfloor>v\<rfloor>" by (simp add: ceiling_def)
    finally show ?thesis using True by (simp add: n fl)
  next
    case False
    then consider "\<not> neg" | "v = 0" by blast
    then show ?thesis
    proof cases
      case 1
      then show ?thesis using nn by (simp add: truncate_real_def n fl)
    next
      case 2
      then have "\<lfloor>v\<rfloor> = 0" by simp
      then show ?thesis using 2 by (simp add: truncate_real_def n fl [symmetric])
    qed
  qed
  then show ?thesis by (simp add: val float_value.simps)
qed

lemma int_product_truncates:
  assumes "int_product s r = Inr n"
  shows "truncated_product s r = Some n"
proof -
  from assms obtain p where p: "py_mul s r = Inr p" "py_int p = Inr n"
    by (auto simp: int_product_def split: sum.splits)
  have "map_option truncate_real (py_real p) = Some n"
  proof (cases p)
    case (PyFloat x)
    then show ?thesis using p(2) float_trunc_truncates by (cases x) auto
  qed (use p(2) in \<open>auto simp: truncate_real_of_int truncate_real_def\<close>)
  then show ?thesis by (simp add: truncated_product_def product_value_def p(1))
qed

lemma floor_float_value:
  "map_option floor (float_value (Finite neg m e)) =
     Some (if 0 \<le> e then (if neg then - int m else int m) * 2 ^ nat e
           else (if neg then - int m else int m) div 2 ^ nat (- e))"
proof (cases "0 \<le> e")
  case True
  have "(if neg then - 1 else 1) * real m * 2 powi e =
        real_of_int ((if neg then - int m else int m) * 2 ^ nat e)"
    using True by (simp add: power_int_def)
  then show ?thesis using True by (simp add: float_value.simps del: of_int_mult of_int_power)
next
  case False
  have "(if neg then - 1 else 1) * real m * 2 powi e =
        real_of_int (if neg then - int m else int m) / real_of_int (2 ^ nat (- e))"
    using False by (simp add: power_int_def field_simps)
  then show ?thesis using False
    by (simp add: float_value.simps floor_divide_of_int_eq del: of_int_power)
qed

lemma floor_of_nonneg_product:
  "truncated_product s r = Some n \<Longrightarrow> nonneg_product s r \<Longrightarrow> floored_product s r = Some n"
  by (auto simp: truncated_product_def nonneg_product_def floored_product_def truncate_real_def
      split: option.splits)

lemma int_product_derived: "int_product s r = Inr n \<Longrightarrow> derived_size s r n"
  by (simp add: derived_size_def int_product_truncates floor_of_nonneg_product)

text \<open>The definitions that a concrete run of the constructor unfolds.\<close>

lemmas run_defs = init_def defaults_def new_dict_def set_attributes_def kwargs_get_def
  assign_size_def int_product_def int_to_float_def round_float_def bitlen.simps Let_def
  float_0_95_def float_0_9_def float_0_5_def default_title_font_def default_font_def

lemmas spec_defs = floored_product_def truncated_product_def product_value_def
  nonneg_product_def

section \<open>The run of the constructor\<close>

lemma defaults_eq:
  "defaults h =
     (\<lparr> title_font = PyRef (length h),
         subtitle_font = PyRef (length h + 1),
         subtitle_ratio = PyFloat float_0_95,
         axis_title_font = PyRef (length h + 2),
         axis_title_ratio = PyFloat float_0_9,
         tick_font = PyRef (length h + 3),
         tick_font_ratio = PyFloat float_0_9,
         legend_font = PyRef (length h + 4),
         legend_font_ratio = PyFloat float_0_9,
         showgrid = PyBool True,
         gridcolor = PyStr ''LightGray'',
         gridwidth = PyInt 1,
         template = PyStr ''simple_white'',
         title_x = PyFloat float_0_5,
         width = PyInt 3200,
         height = PyInt 800 \<rparr>,
      h @ [default_title_font, default_font, default_font, default_font, default_font])"
  by (simp add: defaults_def new_dict_def)

lemma assign_size_Inr:
  assumes "assign_size tgt base r h = Inr h'"
  obtains a b s n where "tgt = PyRef a" "a < length h" "base = PyRef b" "b < length h"
    "(h ! b) ''size'' = Some s" "int_product s r = Inr n"
    "h' = h[a := (h ! a)(''size'' \<mapsto> PyInt n)]"
proof -
  from assms obtain s n where s: "getitem h base ''size'' = Inr s"
    and n: "int_product s r = Inr n"
    and w: "setitem h tgt ''size'' (PyInt n) = Inr h'"
    by (auto simp: assign_size_def split: sum.splits)
  from s obtain b where b: "base = PyRef b" "b < length h" "(h ! b) ''size'' = Some s"
    by (cases base) (auto split: if_splits option.splits)
  from w obtain a where a: "tgt = PyRef a" "a < length h" "h' = h[a := (h ! a)(''size'' \<mapsto> PyInt n)]"
    by (cases tgt) (auto split: if_splits)
  from a b n that show thesis by blast
qed

lemma init_Inr:
  assumes "init kwargs h = (Inr self, h')"
  obtains h0 h1 h2 h3 where
    "h0 = h @ [default_title_font, default_font, default_font, default_font, default_font]"
    "self = set_attributes kwargs (fst (defaults h))"
    "assign_size (subtitle_font self) (title_font self) (subtitle_ratio self) h0 = Inr h1"
    "assign_size (axis_title_font self) (title_font self) (axis_title_ratio self) h1 = Inr h2"
    "assign_size (tick_font self) (axis_title_font self) (tick_font_ratio self) h2 = Inr h3"
    "assign_size (legend_font self) (title_font self) (legend_font_ratio self) h3 = Inr h'"
  using assms unfolding init_def defaults_eq
  by (auto simp: Let_def split: sum.splits)

text \<open>The full description of a successful run.\<close>

lemma init_run:
  assumes "init kwargs h = (Inr self, h')"
  obtains t a1 a2 a3 a4 s1 s2 s4 n1 n2 n3 n4 h0 h1 h2 h3 where
    "h0 = h @ [default_title_font, default_font, default_font, default_font, default_font]"
    "self = set_attributes kwargs (fst (defaults h))"
    "title_font self = PyRef t" "subtitle_font self = PyRef a1"
    "axis_title_font self = PyRef a2" "tick_font self = PyRef a3" "legend_font self = PyRef a4"
    "t < length h0" "a1 < length h0" "a2 < length h0" "a3 < length h0" "a4 < length h0"
    "(h0 ! t) ''size'' = Some s1" "int_product s1 (subtitle_ratio self) = Inr n1"
    "h1 = h0[a1 := (h0 ! a1)(''size'' \<mapsto> PyInt n1)]"
    "(h1 ! t) ''size'' = Some s2" "int_product s2 (axis_title_ratio self) = Inr n2"
    "h2 = h1[a2 := (h1 ! a2)(''size'' \<mapsto> PyInt n2)]"
    "int_product (PyInt n2) (tick_font_ratio self) = Inr n3"
    "h3 = h2[a3 := (h2 ! a3)(''size'' \<mapsto> PyInt n3)]"
    "(h3 ! t) ''size'' = Some s4" "int_product s4 (legend_font_ratio self) = Inr n4"
    "h' = h3[a4 := (h3 ! a4)(''size'' \<mapsto> PyInt n4)]"
proof -
  from assms obtain h0 h1 h2 h3 where
    h0: "h0 = h @ [default_title_font, default_font, default_font, default_font, default_font]"
    and self: "self = set_attributes kwargs (fst (defaults h))"
    and 1: "assign_size (subtitle_font self) (title_font self) (subtitle_ratio self) h0 = Inr h1"
    and 2: "assign_size (axis_title_font self) (title_font self) (axis_title_ratio self) h1 = Inr h2"
    and 3: "assign_size (tick_font self) (axis_title_font self) (tick_font_ratio self) h2 = Inr h3"
    and 4: "assign_size (legend_font self) (title_font self) (legend_font_ratio self) h3 = Inr h'"
    by (rule init_Inr)
  from 1 obtain a1 t s1 n1 where s1: "subtitle_font self = PyRef a1" "a1 < length h0"
    "title_font self = PyRef t" "t < length h0" "(h0 ! t) ''size'' = Some s1"
    "int_product s1 (subtitle_ratio self) = Inr n1"
    "h1 = h0[a1 := (h0 ! a1)(''size'' \<mapsto> PyInt n1)]"
    by (rule assign_size_Inr)
  from 2 obtain a2 t' s2 n2 where s2: "axis_title_font self = PyRef a2" "a2 < length h1"
    "title_font self = PyRef t'" "(h1 ! t') ''size'' = Some s2"
    "int_product s2 (axis_title_ratio self) = Inr n2"
    "h2 = h1[a2 := (h1 ! a2)(''size'' \<mapsto> PyInt n2)]"
    by (rule assign_size_Inr)
  from 3 obtain a3 b s3 n3 where s3: "tick_font self = PyRef a3" "a3 < length h2"
    "axis_title_font self = PyRef b" "(h2 ! b) ''size'' = Some s3"
    "int_product s3 (tick_font_ratio self) = Inr n3"
    "h3 = h2[a3 := (h2 ! a3)(''size'' \<mapsto> PyInt n3)]"
    by (rule assign_size_Inr)
  from 4 obtain a4 t'' s4 n4 where s4: "legend_font self = PyRef a4" "a4 < length h3"
    "title_font self = PyRef t''" "(h3 ! t'') ''size'' = Some s4"
    "int_product s4 (legend_font_ratio self) = Inr n4"
    "h' = h3[a4 := (h3 ! a4)(''size'' \<mapsto> PyInt n4)]"
    by (rule assign_size_Inr)
  have t: "t' = t" "t'' = t" "b = a2" using s1 s2 s3 s4 by simp_all
  have len: "length h1 = length h0" "length h2 = length h0" "length h3 = length h0"
    using s1 s2 s3 by simp_all
  have "s3 = PyInt n2" using s3(4) s2 t len by simp
  with that h0 self s1 s2 s3 s4 t len show thesis by metis
qed

lemma init_distinct_sizes:
  assumes ok: "init kwargs h = (Inr self, h')"
    and dist: "distinct [title_font self, subtitle_font self, axis_title_font self,
                 tick_font self, legend_font self]"
  shows "\<exists>s n1 n2 n3 n4.
      getitem (snd (defaults h)) (title_font self) ''size'' = Inr s \<and>
      getitem h' (title_font self) ''size'' = Inr s \<and>
      getitem h' (subtitle_font self) ''size'' = Inr (PyInt n1) \<and>
      int_product s (subtitle_ratio self) = Inr n1 \<and>
      getitem h' (axis_title_font self) ''size'' = Inr (PyInt n2) \<and>
      int_product s (axis_title_ratio self) = Inr n2 \<and>
      getitem h' (tick_font self) ''size'' = Inr (PyInt n3) \<and>
      int_product (PyInt n2) (tick_font_ratio self) = Inr n3 \<and>
      getitem h' (legend_font self) ''size'' = Inr (PyInt n4) \<and>
      int_product s (legend_font_ratio self) = Inr n4"
proof -
  from ok obtain t a1 a2 a3 a4 s1 s2 s4 n1 n2 n3 n4 h0 h1 h2 h3 where r:
    "h0 = h @ [default_title_font, default_font, default_font, default_font, default_font]"
    "self = set_attributes kwargs (fst (defaults h))"
    "title_font self = PyRef t" "subtitle_font self = PyRef a1"
    "axis_title_font self = PyRef a2" "tick_font self = PyRef a3" "legend_font self = PyRef a4"
    "t < length h0" "a1 < length h0" "a2 < length h0" "a3 < length h0" "a4 < length h0"
    "(h0 ! t) ''size'' = Some s1" "int_product s1 (subtitle_ratio self) = Inr n1"
    "h1 = h0[a1 := (h0 ! a1)(''size'' \<mapsto> PyInt n1)]"
    "(h1 ! t) ''size'' = Some s2" "int_product s2 (axis_title_ratio self) = Inr n2"
    "h2 = h1[a2 := (h1 ! a2)(''size'' \<mapsto> PyInt n2)]"
    "int_product (PyInt n2) (tick_font_ratio self) = Inr n3"
    "h3 = h2[a3 := (h2 ! a3)(''size'' \<mapsto> PyInt n3)]"
    "(h3 ! t) ''size'' = Some s4" "int_product s4 (legend_font_ratio self) = Inr n4"
    "h' = h3[a4 := (h3 ! a4)(''size'' \<mapsto> PyInt n4)]"
    by (rule init_run)
  from dist r(3-7) have d: "t \<noteq> a1" "t \<noteq> a2" "t \<noteq> a3" "t \<noteq> a4" "a1 \<noteq> a2" "a1 \<noteq> a3"
    "a1 \<noteq> a4" "a2 \<noteq> a3" "a2 \<noteq> a4" "a3 \<noteq> a4"
    by auto
  have h0: "snd (defaults h) = h0" by (simp add: defaults_eq r(1))
  have s2: "s2 = s1" using r(16) r(13) d r(15) r(8) by simp
  have s4: "s4 = s1" using r(21) r(13) d r(15) r(18) r(20) r(8) by simp
  have t: "getitem h' (PyRef t) ''size'' = Inr s1"
    using r(13) d r(8) by (simp add: r(15,18,20,23))
  have 1: "getitem h' (PyRef a1) ''size'' = Inr (PyInt n1)"
    using d r(9) by (simp add: r(15,18,20,23))
  have 2: "getitem h' (PyRef a2) ''size'' = Inr (PyInt n2)"
    using d r(10) by (simp add: r(15,18,20,23))
  have 3: "getitem h' (PyRef a3) ''size'' = Inr (PyInt n3)"
    using d r(11) by (simp add: r(15,18,20,23))
  have 4: "getitem h' (PyRef a4) ''size'' = Inr (PyInt n4)"
    using d r(12) by (simp add: r(15,18,20,23))
  have 0: "getitem h0 (PyRef t) ''size'' = Inr s1" using r(8,13) by simp
  show ?thesis
    unfolding h0 r(3-7)
    using 0 t 1 2 3 4 r(14) r(17) [unfolded s2] r(19) r(22) [unfolded s4] by blast
qed

lemma set_size_other_key:
  "key \<noteq> ''size'' \<Longrightarrow> ((h[a := (h ! a)(''size'' \<mapsto> v)]) ! b) key = (h ! b) key"
  by (cases "a < length h") (simp_all add: nth_list_update list_update_beyond)

lemma set_size_keeps_size:
  "(h ! b) ''size'' \<noteq> None \<Longrightarrow> ((h[a := (h ! a)(''size'' \<mapsto> v)]) ! b) ''size'' \<noteq> None"
  by (cases "a < length h") (simp_all add: nth_list_update list_update_beyond)

lemma init_frame:
  assumes ok: "init kwargs h = (Inr self, h')"
  shows "length h' = length h + 5"
    and "\<And>b key. key \<noteq> ''size'' \<Longrightarrow> (h' ! b) key = (snd (defaults h) ! b) key"
    and "\<And>b. PyRef b \<notin> {subtitle_font self, axis_title_font self, tick_font self,
                legend_font self} \<Longrightarrow> h' ! b = snd (defaults h) ! b"
    and "\<And>v. v \<in> {subtitle_font self, axis_title_font self, tick_font self, legend_font self} \<Longrightarrow>
           \<exists>a n. v = PyRef a \<and> a < length h' \<and> (h' ! a) ''size'' = Some (PyInt n)"
    and "\<exists>t s. title_font self = PyRef t \<and> t < length h' \<and> (h' ! t) ''size'' = Some s"
proof -
  from ok obtain t a1 a2 a3 a4 s1 s2 s4 n1 n2 n3 n4 h0 h1 h2 h3 where r:
    "h0 = h @ [default_title_font, default_font, default_font, default_font, default_font]"
    "self = set_attributes kwargs (fst (defaults h))"
    "title_font self = PyRef t" "subtitle_font self = PyRef a1"
    "axis_title_font self = PyRef a2" "tick_font self = PyRef a3" "legend_font self = PyRef a4"
    "t < length h0" "a1 < length h0" "a2 < length h0" "a3 < length h0" "a4 < length h0"
    "(h0 ! t) ''size'' = Some s1" "int_product s1 (subtitle_ratio self) = Inr n1"
    "h1 = h0[a1 := (h0 ! a1)(''size'' \<mapsto> PyInt n1)]"
    "(h1 ! t) ''size'' = Some s2" "int_product s2 (axis_title_ratio self) = Inr n2"
    "h2 = h1[a2 := (h1 ! a2)(''size'' \<mapsto> PyInt n2)]"
    "int_product (PyInt n2) (tick_font_ratio self) = Inr n3"
    "h3 = h2[a3 := (h2 ! a3)(''size'' \<mapsto> PyInt n3)]"
    "(h3 ! t) ''size'' = Some s4" "int_product s4 (legend_font_ratio self) = Inr n4"
    "h' = h3[a4 := (h3 ! a4)(''size'' \<mapsto> PyInt n4)]"
    by (rule init_run)
  have h0: "snd (defaults h) = h0" by (simp add: defaults_eq r(1))
  have len: "length h1 = length h0" "length h2 = length h0" "length h3 = length h0"
    "length h' = length h0"
    by (simp_all add: r(15,18,20,23))
  show "length h' = length h + 5" by (simp add: len r(1))
  show "(h' ! b) key = (snd (defaults h) ! b) key" if "key \<noteq> ''size''" for b key
    unfolding h0 r(23) r(20) r(18) r(15) using that by (simp add: set_size_other_key)
  show "h' ! b = snd (defaults h) ! b"
    if "PyRef b \<notin> {subtitle_font self, axis_title_font self, tick_font self, legend_font self}"
    for b
    using that unfolding h0 r(4-7) by (simp add: r(15,18,20,23))
  show "\<exists>a n. v = PyRef a \<and> a < length h' \<and> (h' ! a) ''size'' = Some (PyInt n)"
    if "v \<in> {subtitle_font self, axis_title_font self, tick_font self, legend_font self}" for v
  proof -
    have "(h' ! a1) ''size'' \<in> Some ` PyInt ` UNIV" "(h' ! a2) ''size'' \<in> Some ` PyInt ` UNIV"
      "(h' ! a3) ''size'' \<in> Some ` PyInt ` UNIV" "(h' ! a4) ''size'' \<in> Some ` PyInt ` UNIV"
      using r(9-12) by (simp_all add: r(15,18,20,23) nth_list_update)
    with that r(4-7) r(9-12) len show ?thesis by auto
  qed
  show "\<exists>t s. title_font self = PyRef t \<and> t < length h' \<and> (h' ! t) ''size'' = Some s"
  proof -
    have "(h' ! t) ''size'' \<noteq> None"
      unfolding r(23) r(20) r(18) r(15) using r(13) by (intro set_size_keeps_size) simp
    with r(3) r(8) len show ?thesis by auto
  qed
qed




lemma supplied_attribute:
  assumes "name \<in> {''title_font'', ''subtitle_font'', ''axis_title_font'', ''tick_font'', ''legend_font''}"
    and "kwargs name = Some v"
  shows "getattr (set_attributes kwargs d) name = Some v"
  using assms
  by (elim insertE emptyE) (simp_all add: set_attributes_def kwargs_get_def getattr_def)

lemma derived_attribute:
  assumes "name \<in> {''subtitle_font'', ''axis_title_font'', ''tick_font'', ''legend_font''}"
    and "getattr self name = Some v"
  shows "v \<in> {subtitle_font self, axis_title_font self, tick_font self, legend_font self}"
  using assms by (elim insertE emptyE) (simp_all add: getattr_def)



lemma size_after_set:
  "t < length h \<Longrightarrow>
     ((h[a := (h ! a)(''size'' \<mapsto> PyInt n)]) ! t) ''size'' =
       (if t = a then Some (PyInt n) else (h ! t) ''size'')"
  by (simp add: nth_list_update)

lemma init_sizes_written_last:
  assumes ok: "init kwargs h = (Inr self, h')"
  shows "\<exists>n1 n2 n3 n4.
      computed_sizes self (snd (defaults h)) n1 n2 n3 n4 \<and>
      (\<forall>a. PyRef a \<in> {subtitle_font self, axis_title_font self, tick_font self,
                       legend_font self} \<longrightarrow>
           (h' ! a) ''size'' = Some (PyInt (last_written self a n1 n2 n3 n4)))"
proof -
  from ok obtain t a1 a2 a3 a4 s1 s2 s4 n1 n2 n3 n4 h0 h1 h2 h3 where r:
    "h0 = h @ [default_title_font, default_font, default_font, default_font, default_font]"
    "self = set_attributes kwargs (fst (defaults h))"
    "title_font self = PyRef t" "subtitle_font self = PyRef a1"
    "axis_title_font self = PyRef a2" "tick_font self = PyRef a3" "legend_font self = PyRef a4"
    "t < length h0" "a1 < length h0" "a2 < length h0" "a3 < length h0" "a4 < length h0"
    "(h0 ! t) ''size'' = Some s1" "int_product s1 (subtitle_ratio self) = Inr n1"
    "h1 = h0[a1 := (h0 ! a1)(''size'' \<mapsto> PyInt n1)]"
    "(h1 ! t) ''size'' = Some s2" "int_product s2 (axis_title_ratio self) = Inr n2"
    "h2 = h1[a2 := (h1 ! a2)(''size'' \<mapsto> PyInt n2)]"
    "int_product (PyInt n2) (tick_font_ratio self) = Inr n3"
    "h3 = h2[a3 := (h2 ! a3)(''size'' \<mapsto> PyInt n3)]"
    "(h3 ! t) ''size'' = Some s4" "int_product s4 (legend_font_ratio self) = Inr n4"
    "h' = h3[a4 := (h3 ! a4)(''size'' \<mapsto> PyInt n4)]"
    by (rule init_run)
  have h0: "snd (defaults h) = h0" by (simp add: defaults_eq r(1))
  have len: "length h1 = length h0" "length h2 = length h0" "length h3 = length h0"
    by (simp_all add: r(15,18,20))
  have e1: "(h1 ! b) ''size'' = (if b = a1 then Some (PyInt n1) else (h0 ! b) ''size'')"
    if "b < length h0" for b
    unfolding r(15) using that by (rule size_after_set)
  have e2: "(h2 ! b) ''size'' = (if b = a2 then Some (PyInt n2) else (h1 ! b) ''size'')"
    if "b < length h0" for b
    unfolding r(18) using that len by (intro size_after_set) simp
  have e3: "(h3 ! b) ''size'' = (if b = a3 then Some (PyInt n3) else (h2 ! b) ''size'')"
    if "b < length h0" for b
    unfolding r(20) using that len by (intro size_after_set) simp
  have e4: "(h' ! b) ''size'' = (if b = a4 then Some (PyInt n4) else (h3 ! b) ''size'')"
    if "b < length h0" for b
    unfolding r(23) using that len by (intro size_after_set) simp
  have s2: "s2 = (if t = a1 then PyInt n1 else s1)"
  proof (cases "t = a1")
    case True
    with r(16) e1 [OF r(8)] show ?thesis by simp
  next
    case False
    with r(16) r(13) e1 [OF r(8)] show ?thesis by simp
  qed
  have s4: "s4 = (if t = a3 then PyInt n3 else if t = a2 then PyInt n2
                  else if t = a1 then PyInt n1 else s1)"
  proof (cases "t = a3")
    case True
    with r(21) e3 [OF r(8)] show ?thesis by simp
  next
    case n3: False
    show ?thesis
    proof (cases "t = a2")
      case True
      with n3 r(21) e3 [OF r(8)] e2 [OF r(8)] show ?thesis by simp
    next
      case n2: False
      show ?thesis
      proof (cases "t = a1")
        case True
        with n3 n2 r(21) e3 [OF r(8)] e2 [OF r(8)] e1 [OF r(8)] show ?thesis by simp
      next
        case False
        with n3 n2 r(21) r(13) e3 [OF r(8)] e2 [OF r(8)] e1 [OF r(8)] show ?thesis by simp
      qed
    qed
  qed
  have g: "getitem h0 (PyRef t) ''size'' = Inr s1" using r(8) r(13) by simp
  have c1: "truncated_product s1 (subtitle_ratio self) = Some n1"
    by (rule int_product_truncates [OF r(14)])
  have c2: "truncated_product (if PyRef t = PyRef a1 then PyInt n1 else s1)
      (axis_title_ratio self) = Some n2"
    using int_product_truncates [OF r(17)] unfolding s2 by (simp split del: if_split)
  have c3: "truncated_product (PyInt n2) (tick_font_ratio self) = Some n3"
    by (rule int_product_truncates [OF r(19)])
  have c4: "truncated_product
      (if PyRef t = PyRef a3 then PyInt n3 else if PyRef t = PyRef a2 then PyInt n2
       else if PyRef t = PyRef a1 then PyInt n1 else s1)
      (legend_font_ratio self) = Some n4"
    using int_product_truncates [OF r(22)] unfolding s4 by (simp split del: if_split cong: if_cong)
  have c: "computed_sizes self h0 n1 n2 n3 n4"
    unfolding computed_sizes_def r(3-7) g by (simp only: sum.case c1 c2 c3 c4 simp_thms)
  have w4: "(h' ! a4) ''size'' = Some (PyInt n4)" using e4 [OF r(12)] by simp
  have w3: "(h' ! a3) ''size'' = Some (PyInt (if a4 = a3 then n4 else n3))"
    using e4 [OF r(11)] e3 [OF r(11)] by simp
  have w2: "(h' ! a2) ''size'' =
      Some (PyInt (if a4 = a2 then n4 else if a3 = a2 then n3 else n2))"
    using e4 [OF r(10)] e3 [OF r(10)] e2 [OF r(10)] by simp
  have w1: "(h' ! a1) ''size'' =
      Some (PyInt (if a4 = a1 then n4 else if a3 = a1 then n3 else if a2 = a1 then n2 else n1))"
    using e4 [OF r(9)] e3 [OF r(9)] e2 [OF r(9)] e1 [OF r(9)] by simp
  have w: "(h' ! a) ''size'' = Some (PyInt (last_written self a n1 n2 n3 n4))"
    if "PyRef a \<in> {subtitle_font self, axis_title_font self, tick_font self, legend_font self}"
    for a
  proof -
    from that have "a = a1 \<or> a = a2 \<or> a = a3 \<or> a = a4" by (auto simp: r(4-7))
    then show ?thesis
    proof (elim disjE)
      assume "a = a1"
      then show ?thesis using w1 by (simp add: last_written_def r(4-7))
    next
      assume "a = a2"
      then show ?thesis using w2 by (simp add: last_written_def r(4-7))
    next
      assume "a = a3"
      then show ?thesis using w3 by (simp add: last_written_def r(4-7))
    next
      assume "a = a4"
      then show ?thesis using w4 by (simp add: last_written_def r(4-7))
    qed
  qed
  from c w show ?thesis unfolding h0 by blast
qed

section \<open>The derived sizes\<close>

text \<open>
  C1, as amended: for every construction that succeeds and whose five font
  dictionaries are distinct objects, with \<open>s\<close> the size of the title font (which the
  construction leaves as it was), the subtitle size is the product of \<open>s\<close> and the
  subtitle ratio cut to an integer toward zero, the axis title size that of \<open>s\<close> and
  the axis title ratio, the tick size that of the axis title size (not of \<open>s\<close>) and
  the tick ratio, and the legend size that of \<open>s\<close> and the legend ratio; each is the
  floor of its product whenever that product is not negative.
\<close>

theorem derived_sizes_sequence:
  assumes "init kwargs h = (Inr self, h')"
    and "distinct_fonts self"
  shows "\<exists>s n1 n2 n3 n4.
      getitem (snd (defaults h)) (title_font self) ''size'' = Inr s \<and>
      getitem h' (title_font self) ''size'' = Inr s \<and>
      getitem h' (subtitle_font self) ''size'' = Inr (PyInt n1) \<and>
      derived_size s (subtitle_ratio self) n1 \<and>
      getitem h' (axis_title_font self) ''size'' = Inr (PyInt n2) \<and>
      derived_size s (axis_title_ratio self) n2 \<and>
      getitem h' (tick_font self) ''size'' = Inr (PyInt n3) \<and>
      derived_size (PyInt n2) (tick_font_ratio self) n3 \<and>
      getitem h' (legend_font self) ''size'' = Inr (PyInt n4) \<and>
      derived_size s (legend_font_ratio self) n4"
  using init_distinct_sizes [OF assms [unfolded distinct_fonts_def]] int_product_derived
  by blast

theorem derived_sizes_sequence_witness:
  "\<exists>self h'.
     init [''title_font'' \<mapsto> PyRef 0, ''tick_font_ratio'' \<mapsto> PyFloat float_0_5]
          [[''size'' \<mapsto> PyInt 30]] = (Inr self, h') \<and>
     distinct_fonts self \<and>
     (\<exists>s n1 n2 n3 n4.
      getitem (snd (defaults [[''size'' \<mapsto> PyInt 30]])) (title_font self) ''size'' = Inr s \<and>
      getitem h' (title_font self) ''size'' = Inr s \<and>
      getitem h' (subtitle_font self) ''size'' = Inr (PyInt n1) \<and>
      derived_size s (subtitle_ratio self) n1 \<and>
      getitem h' (axis_title_font self) ''size'' = Inr (PyInt n2) \<and>
      derived_size s (axis_title_ratio self) n2 \<and>
      getitem h' (tick_font self) ''size'' = Inr (PyInt n3) \<and>
      derived_size (PyInt n2) (tick_font_ratio self) n3 \<and>
      getitem h' (legend_font self) ''size'' = Inr (PyInt n4) \<and>
      derived_size s (legend_font_ratio self) n4)"
proof -
  have "\<exists>self h'.
     init [''title_font'' \<mapsto> PyRef 0, ''tick_font_ratio'' \<mapsto> PyFloat float_0_5]
          [[''size'' \<mapsto> PyInt 30]] = (Inr self, h') \<and>
     distinct_fonts self"
    by (simp add: run_defs distinct_fonts_def)
  then show ?thesis using derived_sizes_sequence by blast
qed

text \<open>
  The claim as stated fails in two ways. With a subtitle ratio of \<open>-0.95\<close> the
  subtitle size is \<open>int(-22.8) = -22\<close>, not the floor \<open>-23\<close>. With one dictionary given as
  both \<^verbatim>\<open>subtitle_font\<close> and \<^verbatim>\<open>tick_font\<close>, the subtitle size ends as the tick
  size \<open>18\<close>, not as \<open>floor(24 * 0.95) = 22\<close>.
\<close>

theorem derived_sizes_counterexample:
  "(case init [''subtitle_ratio'' \<mapsto> PyFloat (Finite True 8556839292003942 (- 53))] [] of
      (Inr self, h') \<Rightarrow>
         getitem h' (title_font self) ''size'' = Inr (PyInt 24) \<and>
         getitem h' (subtitle_font self) ''size'' = Inr (PyInt (- 22)) \<and>
         floored_product (PyInt 24) (subtitle_ratio self) = Some (- 23)
    | (Inl err, h') \<Rightarrow> False) \<and>
   (case init [''subtitle_font'' \<mapsto> PyRef 0, ''tick_font'' \<mapsto> PyRef 0] [Map.empty] of
      (Inr self, h') \<Rightarrow>
         getitem h' (title_font self) ''size'' = Inr (PyInt 24) \<and>
         getitem h' (subtitle_font self) ''size'' = Inr (PyInt 18) \<and>
         floored_product (PyInt 24) (subtitle_ratio self) = Some 22
    | (Inl err, h') \<Rightarrow> False)"
  by (simp add: run_defs spec_defs floor_float_value)

text \<open>
  C2: construction with no options succeeds, on every store, with title size 24,
  subtitle size 22, axis title size 21, tick size 18 and legend size 21.
\<close>

theorem default_sizes:
  "\<exists>self h'. init Map.empty h = (Inr self, h') \<and>
     getitem h' (title_font self) ''size'' = Inr (PyInt 24) \<and>
     getitem h' (subtitle_font self) ''size'' = Inr (PyInt 22) \<and>
     getitem h' (axis_title_font self) ''size'' = Inr (PyInt 21) \<and>
     getitem h' (tick_font self) ''size'' = Inr (PyInt 18) \<and>
     getitem h' (legend_font self) ''size'' = Inr (PyInt 21)"
  by (simp add: run_defs)

lemma truncate_float_value:
  "map_option truncate_real (float_value (Finite neg m e)) =
     Some (if neg then - (if 0 \<le> e then int m * 2 ^ nat e else int m div 2 ^ nat (- e))
           else (if 0 \<le> e then int m * 2 ^ nat e else int m div 2 ^ nat (- e)))"
  by (rule float_trunc_truncates) (simp add: Let_def)

lemma init_distinct_truncated:
  assumes "init kwargs h = (Inr self, h')"
    and "distinct [title_font self, subtitle_font self, axis_title_font self,
           tick_font self, legend_font self]"
  shows "sizes_truncated self h'"
proof -
  from init_distinct_sizes [OF assms] obtain s n1 n2 n3 n4 where
    "getitem h' (title_font self) ''size'' = Inr s"
    "getitem h' (subtitle_font self) ''size'' = Inr (PyInt n1)"
    "int_product s (subtitle_ratio self) = Inr n1"
    "getitem h' (axis_title_font self) ''size'' = Inr (PyInt n2)"
    "int_product s (axis_title_ratio self) = Inr n2"
    "getitem h' (tick_font self) ''size'' = Inr (PyInt n3)"
    "int_product (PyInt n2) (tick_font_ratio self) = Inr n3"
    "getitem h' (legend_font self) ''size'' = Inr (PyInt n4)"
    "int_product s (legend_font_ratio self) = Inr n4"
    by blast
  then show ?thesis
    by (simp add: sizes_truncated_def truncated_size_def int_product_truncates)
qed

lemma standardize_calls_state: "fst (standardize_calls st figs) = st"
proof (induction figs arbitrary: st)
  case Nil
  show ?case by simp
next
  case (Cons fig figs)
  have "fst (standardize_calls st (fig # figs)) = fst (standardize_calls st figs)"
    by (cases "standardize_calls st figs") (simp add: standardize_call_def)
  with Cons show ?case by simp
qed

text \<open>
  C3, as amended: for every construction that succeeds and whose five font
  dictionaries are distinct objects, each derived size is an integer, the truncated
  (not rounded) product of the size of its base font and its ratio; and whatever
  calls of \<open>standardize\<close> follow, on whatever figures, the formatter and the store
  are the ones the construction left, so the sizes stay what they were.
\<close>

theorem truncated_sizes_for_life:
  assumes "init kwargs h = (Inr self, h')" and "distinct_fonts self"
  shows "sizes_truncated self h' \<and>
         (\<forall>figs st figs'. standardize_calls (self, h') figs = (st, figs') \<longrightarrow>
            st = (self, h') \<and> sizes_truncated (fst st) (snd st))"
proof -
  have inv: "sizes_truncated self h'"
    using assms by (simp add: distinct_fonts_def init_distinct_truncated)
  have "st = (self, h')" if "standardize_calls (self, h') figs = (st, figs')" for figs st figs'
    using standardize_calls_state [of "(self, h')" figs] that by simp
  with inv show ?thesis by auto
qed

theorem truncated_sizes_for_life_witness:
  "\<exists>self h'.
     init [''title_font'' \<mapsto> PyRef 0, ''legend_font'' \<mapsto> PyRef 1]
          [[''size'' \<mapsto> PyInt 30], [''color'' \<mapsto> PyStr ''navy'']] = (Inr self, h') \<and>
     distinct_fonts self \<and>
     sizes_truncated self h' \<and>
     fst (standardize_calls (self, h') [example_figure, example_figure]) = (self, h')"
proof -
  have "\<exists>self h'.
     init [''title_font'' \<mapsto> PyRef 0, ''legend_font'' \<mapsto> PyRef 1]
          [[''size'' \<mapsto> PyInt 30], [''color'' \<mapsto> PyStr ''navy'']] = (Inr self, h') \<and>
     distinct_fonts self"
    by (simp add: run_defs distinct_fonts_def)
  then obtain self h' where ok:
    "init [''title_font'' \<mapsto> PyRef 0, ''legend_font'' \<mapsto> PyRef 1]
          [[''size'' \<mapsto> PyInt 30], [''color'' \<mapsto> PyStr ''navy'']] = (Inr self, h')"
    and d: "distinct_fonts self"
    by blast
  obtain st figs' where c:
    "standardize_calls (self, h') [example_figure, example_figure] = (st, figs')"
    by (cases "standardize_calls (self, h') [example_figure, example_figure]")
  from truncated_sizes_for_life [OF ok d] c have "sizes_truncated self h'" "st = (self, h')"
    by blast+
  with ok d c show ?thesis by auto
qed

text \<open>
  The claim as stated fails when the caller passes one dictionary for the four derived
  fonts: all four sizes end as the legend size 21, so the subtitle size is not
  \<open>int(24 * 0.95) = 22\<close> and the tick size is not \<open>int(21 * 0.9) = 18\<close>.
\<close>

theorem truncated_sizes_counterexample:
  "(case init [''subtitle_font'' \<mapsto> PyRef 0, ''axis_title_font'' \<mapsto> PyRef 0,
              ''tick_font'' \<mapsto> PyRef 0, ''legend_font'' \<mapsto> PyRef 0]
             [[''family'' \<mapsto> PyStr ''Helvetica'', ''color'' \<mapsto> PyStr ''navy'']] of
      (Inr self, h') \<Rightarrow>
         getitem h' (title_font self) ''size'' = Inr (PyInt 24) \<and>
         getitem h' (subtitle_font self) ''size'' = Inr (PyInt 21) \<and>
         truncated_product (PyInt 24) (subtitle_ratio self) = Some 22 \<and>
         getitem h' (axis_title_font self) ''size'' = Inr (PyInt 21) \<and>
         getitem h' (tick_font self) ''size'' = Inr (PyInt 21) \<and>
         truncated_product (PyInt 21) (tick_font_ratio self) = Some 18 \<and>
         \<not> sizes_truncated self h'
    | (Inl err, h') \<Rightarrow> False)"
  by (simp add: run_defs spec_defs truncate_float_value sizes_truncated_def truncated_size_def)

lemma defaults_nth_old: "b < length h \<Longrightarrow> snd (defaults h) ! b = h ! b"
  by (simp add: defaults_eq nth_append)

section \<open>Font options are stored as given\<close>

text \<open>
  C9: a font option replaces the whole default dictionary. When the caller supplies a
  dictionary for one of the five font options, the formatter holds that very
  dictionary. After construction every entry of it other than \<open>size\<close> is what the
  caller gave: family and color are the caller's, absent when the caller gave none.
  When the dictionary is one of the four derived fonts, its keys are exactly the
  caller's and \<open>size\<close>, and \<open>size\<close> holds the derived size written into it (the one
  written last, should the dictionary serve several font options; the font's own
  derived size when the five font dictionaries are distinct objects). Otherwise the
  dictionary is unchanged.
\<close>

theorem supplied_font_replaces_default:
  assumes ok: "init kwargs h = (Inr self, h')"
    and name: "name \<in> {''title_font'', ''subtitle_font'', ''axis_title_font'', ''tick_font'',
                 ''legend_font''}"
    and sup: "kwargs name = Some (PyRef a)"
    and a: "a < length h"
  shows "getattr self name = Some (PyRef a) \<and>
         (\<forall>key. key \<noteq> ''size'' \<longrightarrow> (h' ! a) key = (h ! a) key) \<and>
         (h' ! a) ''family'' = (h ! a) ''family'' \<and>
         (h' ! a) ''color'' = (h ! a) ''color'' \<and>
         dom (h' ! a) \<subseteq> insert ''size'' (dom (h ! a)) \<and>
         (PyRef a \<notin> {subtitle_font self, axis_title_font self, tick_font self, legend_font self}
            \<longrightarrow> h' ! a = h ! a) \<and>
         (PyRef a \<in> {subtitle_font self, axis_title_font self, tick_font self, legend_font self}
            \<longrightarrow> dom (h' ! a) = insert ''size'' (dom (h ! a)) \<and>
                (\<exists>n1 n2 n3 n4.
                   computed_sizes self (snd (defaults h)) n1 n2 n3 n4 \<and>
                   (h' ! a) ''size'' = Some (PyInt (last_written self a n1 n2 n3 n4)))) \<and>
         (name \<noteq> ''title_font'' \<longrightarrow>
            PyRef a \<in> {subtitle_font self, axis_title_font self, tick_font self,
                        legend_font self}) \<and>
         (distinct_fonts self \<longrightarrow> sizes_truncated self h')"
proof -
  from ok have self: "self = set_attributes kwargs (fst (defaults h))"
    by (rule init_Inr)
  have attr: "getattr self name = Some (PyRef a)"
    unfolding self using name sup by (rule supplied_attribute)
  have keys: "(h' ! a) key = (h ! a) key" if "key \<noteq> ''size''" for key
    using init_frame(2) [OF ok that, of a] a by (simp add: defaults_nth_old)
  have same: "h' ! a = h ! a"
    if "PyRef a \<notin> {subtitle_font self, axis_title_font self, tick_font self, legend_font self}"
    using init_frame(3) [OF ok that] a by (simp add: defaults_nth_old)
  have sub: "dom (h' ! a) \<subseteq> insert ''size'' (dom (h ! a))"
  proof
    fix key assume k: "key \<in> dom (h' ! a)"
    show "key \<in> insert ''size'' (dom (h ! a))"
    proof (cases "key = ''size''")
      case False
      with keys [OF False] k show ?thesis by (simp add: dom_def)
    qed simp
  qed
  from init_sizes_written_last [OF ok] obtain n1 n2 n3 n4 where
    c: "computed_sizes self (snd (defaults h)) n1 n2 n3 n4"
    and w: "\<And>b. PyRef b \<in> {subtitle_font self, axis_title_font self, tick_font self,
                legend_font self} \<Longrightarrow>
              (h' ! b) ''size'' = Some (PyInt (last_written self b n1 n2 n3 n4))"
    by blast
  have derived: "dom (h' ! a) = insert ''size'' (dom (h ! a)) \<and>
      (\<exists>n1 n2 n3 n4.
         computed_sizes self (snd (defaults h)) n1 n2 n3 n4 \<and>
         (h' ! a) ''size'' = Some (PyInt (last_written self a n1 n2 n3 n4)))"
    if one: "PyRef a \<in> {subtitle_font self, axis_title_font self, tick_font self,
      legend_font self}"
  proof
    have size: "''size'' \<in> dom (h' ! a)" using w [OF one] by (simp add: dom_def)
    have "key \<in> dom (h' ! a)" if "key \<in> dom (h ! a)" "key \<noteq> ''size''" for key
      using keys [OF that(2)] that(1) by (simp add: dom_def)
    with size have "insert ''size'' (dom (h ! a)) \<subseteq> dom (h' ! a)" by blast
    with sub show "dom (h' ! a) = insert ''size'' (dom (h ! a))" by (rule equalityI)
    from c w [OF one] show "\<exists>n1 n2 n3 n4.
         computed_sizes self (snd (defaults h)) n1 n2 n3 n4 \<and>
         (h' ! a) ''size'' = Some (PyInt (last_written self a n1 n2 n3 n4))"
      by blast
  qed
  have is_derived: "PyRef a \<in> {subtitle_font self, axis_title_font self, tick_font self,
      legend_font self}" if "name \<noteq> ''title_font''"
  proof -
    from name that have "name \<in> {''subtitle_font'', ''axis_title_font'', ''tick_font'',
        ''legend_font''}"
      by (elim insertE emptyE) simp_all
    then show ?thesis using attr by (rule derived_attribute)
  qed
  have inv: "sizes_truncated self h'" if "distinct_fonts self"
    using ok that by (simp add: distinct_fonts_def init_distinct_truncated)
  from attr keys sub same derived is_derived inv show ?thesis
    by (intro conjI allI impI) simp_all
qed

theorem supplied_font_replaces_default_witness:
  "\<exists>self h'.
     init [''title_font'' \<mapsto> PyRef 0, ''tick_font'' \<mapsto> PyRef 1]
          [[''size'' \<mapsto> PyInt 30], [''color'' \<mapsto> PyStr ''navy'']] = (Inr self, h') \<and>
     getattr self ''title_font'' = Some (PyRef 0) \<and>
     (h' ! 0) ''family'' = None \<and> (h' ! 0) ''color'' = None \<and>
     dom (h' ! 0) \<subseteq> {''size''} \<and>
     h' ! 0 = [''size'' \<mapsto> PyInt 30] \<and>
     getattr self ''tick_font'' = Some (PyRef 1) \<and>
     (h' ! 1) ''family'' = None \<and> (h' ! 1) ''color'' = Some (PyStr ''navy'') \<and>
     dom (h' ! 1) = {''size'', ''color''} \<and>
     (\<exists>n1 n2 n3 n4.
        computed_sizes self
          (snd (defaults [[''size'' \<mapsto> PyInt 30], [''color'' \<mapsto> PyStr ''navy'']]))
          n1 n2 n3 n4 \<and>
        (h' ! 1) ''size'' = Some (PyInt (last_written self 1 n1 n2 n3 n4))) \<and>
     (h' ! 1) ''size'' = Some (PyInt 24) \<and>
     sizes_truncated self h'"
proof -
  let ?kw = "[''title_font'' \<mapsto> PyRef 0, ''tick_font'' \<mapsto> PyRef 1]"
  let ?h = "[[''size'' \<mapsto> PyInt 30], [''color'' \<mapsto> PyStr ''navy'']]"
  have "\<exists>self h'. init ?kw ?h = (Inr self, h') \<and>
      PyRef 0 \<notin> {subtitle_font self, axis_title_font self, tick_font self, legend_font self} \<and>
      distinct_fonts self \<and> (h' ! 1) ''size'' = Some (PyInt 24)"
    by (simp add: run_defs distinct_fonts_def)
  then obtain self h' where ok: "init ?kw ?h = (Inr self, h')"
    and t: "PyRef 0 \<notin> {subtitle_font self, axis_title_font self, tick_font self, legend_font self}"
    and d: "distinct_fonts self" and s: "(h' ! 1) ''size'' = Some (PyInt 24)"
    by blast
  have 0: "?kw ''title_font'' = Some (PyRef 0)" "(0::nat) < length ?h" by simp_all
  have 1: "?kw ''tick_font'' = Some (PyRef 1)" "(1::nat) < length ?h" by simp_all
  have n0: "''title_font'' \<in> {''title_font'', ''subtitle_font'', ''axis_title_font'',
      ''tick_font'', ''legend_font''}" by simp
  have n1: "''tick_font'' \<in> {''title_font'', ''subtitle_font'', ''axis_title_font'',
      ''tick_font'', ''legend_font''}" by simp
  have ne: "''tick_font'' \<noteq> ''title_font''" by simp
  note w0 = supplied_font_replaces_default [OF ok n0 0]
  note w1 = supplied_font_replaces_default [OF ok n1 1]
  from w0 t have a: "getattr self ''title_font'' = Some (PyRef 0)" "(h' ! 0) ''family'' = None"
    "(h' ! 0) ''color'' = None" "dom (h' ! 0) \<subseteq> {''size''}" "h' ! 0 = [''size'' \<mapsto> PyInt 30]"
    by simp_all
  from w1 ne have one: "PyRef 1 \<in> {subtitle_font self, axis_title_font self, tick_font self,
      legend_font self}"
    by blast
  from w1 have b: "getattr self ''tick_font'' = Some (PyRef 1)" "(h' ! 1) ''family'' = None"
    "(h' ! 1) ''color'' = Some (PyStr ''navy'')"
    by simp_all
  from w1 one have "dom (h' ! 1) = insert ''size'' (dom (?h ! 1))"
    and e: "\<exists>n1 n2 n3 n4. computed_sizes self (snd (defaults ?h)) n1 n2 n3 n4 \<and>
        (h' ! 1) ''size'' = Some (PyInt (last_written self 1 n1 n2 n3 n4))"
    by blast+
  then have c: "dom (h' ! 1) = {''size'', ''color''}" by simp
  from w1 d have i: "sizes_truncated self h'" by blast
  from ok a b c e s i show ?thesis by (intro exI [of _ self] exI [of _ h'] conjI)
qed

section \<open>The caller's dictionary is written to\<close>

text \<open>
  C10, as amended: when the caller supplies a dictionary \<open>m\<close> for one of the four
  derived font options, the formatter holds \<open>m\<close> itself, and after construction
  \<open>m\<close> is what it was with its entry \<open>size\<close> set to an integer, every other entry
  unchanged; no dictionary of the caller that is not one of the four derived fonts is
  changed. The integer is the one written last into \<open>m\<close>, the four assignments
  running in the order subtitle, axis title, tick, legend, each computing the
  truncated product of its base size and its ratio. When the five font dictionaries
  are distinct objects, it is the derived size of that font.
\<close>

theorem supplied_font_is_mutated:
  assumes ok: "init kwargs h = (Inr self, h')"
    and name: "name \<in> {''subtitle_font'', ''axis_title_font'', ''tick_font'', ''legend_font''}"
    and sup: "kwargs name = Some (PyRef a)"
    and a: "a < length h"
  shows "getattr self name = Some (PyRef a) \<and>
         (\<exists>n1 n2 n3 n4.
            computed_sizes self (snd (defaults h)) n1 n2 n3 n4 \<and>
            h' ! a = (h ! a)(''size'' \<mapsto> PyInt (last_written self a n1 n2 n3 n4))) \<and>
         (\<forall>b < length h.
            PyRef b \<notin> {subtitle_font self, axis_title_font self, tick_font self, legend_font self}
            \<longrightarrow> h' ! b = h ! b) \<and>
         (distinct_fonts self \<longrightarrow> sizes_truncated self h')"
proof -
  from ok have self: "self = set_attributes kwargs (fst (defaults h))"
    by (rule init_Inr)
  have "name \<in> {''title_font'', ''subtitle_font'', ''axis_title_font'', ''tick_font'',
      ''legend_font''}"
    using name by (elim insertE emptyE) simp_all
  then have attr: "getattr self name = Some (PyRef a)"
    unfolding self using sup by (rule supplied_attribute)
  have one: "PyRef a \<in> {subtitle_font self, axis_title_font self, tick_font self,
      legend_font self}"
    using name attr by (rule derived_attribute)
  from init_sizes_written_last [OF ok] one obtain n1 n2 n3 n4 where
    c: "computed_sizes self (snd (defaults h)) n1 n2 n3 n4"
    and n: "(h' ! a) ''size'' = Some (PyInt (last_written self a n1 n2 n3 n4))"
    by blast
  have "h' ! a = (h ! a)(''size'' \<mapsto> PyInt (last_written self a n1 n2 n3 n4))"
  proof
    fix key
    show "(h' ! a) key = ((h ! a)(''size'' \<mapsto> PyInt (last_written self a n1 n2 n3 n4))) key"
      using init_frame(2) [OF ok, of key a] n a by (simp add: defaults_nth_old)
  qed
  with c have "\<exists>n1 n2 n3 n4.
      computed_sizes self (snd (defaults h)) n1 n2 n3 n4 \<and>
      h' ! a = (h ! a)(''size'' \<mapsto> PyInt (last_written self a n1 n2 n3 n4))"
    by blast
  moreover have "h' ! b = h ! b"
    if "b < length h"
      "PyRef b \<notin> {subtitle_font self, axis_title_font self, tick_font self, legend_font self}"
    for b
    using init_frame(3) [OF ok that(2)] that(1) by (simp add: defaults_nth_old)
  moreover have "sizes_truncated self h'" if "distinct_fonts self"
    using ok that by (simp add: distinct_fonts_def init_distinct_truncated)
  ultimately show ?thesis using attr by blast
qed

theorem supplied_font_is_mutated_witness:
  "\<exists>self h'.
     init [''tick_font'' \<mapsto> PyRef 1, ''legend_font'' \<mapsto> PyRef 1]
          [[''family'' \<mapsto> PyStr ''Courier''], [''size'' \<mapsto> PyInt 99, ''color'' \<mapsto> PyStr ''navy'']]
       = (Inr self, h') \<and>
     getattr self ''tick_font'' = Some (PyRef 1) \<and>
     (\<exists>n1 n2 n3 n4.
        computed_sizes self
          (snd (defaults [[''family'' \<mapsto> PyStr ''Courier''],
                          [''size'' \<mapsto> PyInt 99, ''color'' \<mapsto> PyStr ''navy'']]))
          n1 n2 n3 n4 \<and>
        h' ! 1 = [''size'' \<mapsto> PyInt 99, ''color'' \<mapsto> PyStr ''navy'']
                   (''size'' \<mapsto> PyInt (last_written self 1 n1 n2 n3 n4))) \<and>
     h' ! 0 = [''family'' \<mapsto> PyStr ''Courier''] \<and>
     computed_sizes self
       (snd (defaults [[''family'' \<mapsto> PyStr ''Courier''],
                       [''size'' \<mapsto> PyInt 99, ''color'' \<mapsto> PyStr ''navy'']]))
       22 21 18 21 \<and>
     last_written self 1 22 21 18 21 = 21 \<and>
     (h' ! 1) ''size'' = Some (PyInt 21)"
proof -
  let ?kw = "[''tick_font'' \<mapsto> PyRef 1, ''legend_font'' \<mapsto> PyRef 1]"
  let ?h = "[[''family'' \<mapsto> PyStr ''Courier''],
             [''size'' \<mapsto> PyInt 99, ''color'' \<mapsto> PyStr ''navy'']]"
  have "\<exists>self h'. init ?kw ?h = (Inr self, h') \<and>
      PyRef 0 \<notin> {subtitle_font self, axis_title_font self, tick_font self, legend_font self} \<and>
      computed_sizes self (snd (defaults ?h)) 22 21 18 21 \<and>
      last_written self 1 22 21 18 21 = 21 \<and>
      (h' ! 1) ''size'' = Some (PyInt 21)"
    by (simp add: run_defs computed_sizes_def last_written_def spec_defs truncate_float_value)
  then obtain self h' where ok: "init ?kw ?h = (Inr self, h')"
    and t: "PyRef 0 \<notin> {subtitle_font self, axis_title_font self, tick_font self, legend_font self}"
    and c: "computed_sizes self (snd (defaults ?h)) 22 21 18 21"
    and l: "last_written self 1 22 21 18 21 = 21"
    and s: "(h' ! 1) ''size'' = Some (PyInt 21)"
    by blast
  have 1: "?kw ''tick_font'' = Some (PyRef 1)" "(1::nat) < length ?h" by simp_all
  have n1: "''tick_font'' \<in> {''subtitle_font'', ''axis_title_font'', ''tick_font'',
      ''legend_font''}" by simp
  note w = supplied_font_is_mutated [OF ok n1 1]
  from w have a: "getattr self ''tick_font'' = Some (PyRef 1)" by blast
  from w have "\<exists>n1 n2 n3 n4. computed_sizes self (snd (defaults ?h)) n1 n2 n3 n4 \<and>
      h' ! 1 = (?h ! 1)(''size'' \<mapsto> PyInt (last_written self 1 n1 n2 n3 n4))"
    by blast
  then have e: "\<exists>n1 n2 n3 n4. computed_sizes self (snd (defaults ?h)) n1 n2 n3 n4 \<and>
      h' ! 1 = [''size'' \<mapsto> PyInt 99, ''color'' \<mapsto> PyStr ''navy'']
                 (''size'' \<mapsto> PyInt (last_written self 1 n1 n2 n3 n4))"
    by simp
  from w t have "h' ! 0 = ?h ! 0" by simp
  then have z: "h' ! 0 = [''family'' \<mapsto> PyStr ''Courier'']" by simp
  from ok a e z c l s show ?thesis by (intro exI [of _ self] exI [of _ h'] conjI)
qed

text \<open>
  The claim as stated fails when \<open>m\<close> is given for two options: as
  \<^verbatim>\<open>axis_title_font\<close> and as \<^verbatim>\<open>tick_font\<close>, \<open>m\<close> ends with the tick size
  \<open>int(21 * 0.9) = 18\<close>, not with the axis title size \<open>int(24 * 0.9) = 21\<close>.
\<close>

theorem supplied_font_is_mutated_counterexample:
  "(case init [''axis_title_font'' \<mapsto> PyRef 0, ''tick_font'' \<mapsto> PyRef 0]
             [[''family'' \<mapsto> PyStr ''Courier'']] of
      (Inr self, h') \<Rightarrow>
         axis_title_font self = PyRef 0 \<and>
         getitem h' (title_font self) ''size'' = Inr (PyInt 24) \<and>
         truncated_product (PyInt 24) (axis_title_ratio self) = Some 21 \<and>
         (h' ! 0) ''size'' = Some (PyInt 18)
    | (Inl err, h') \<Rightarrow> False)"
  by (simp add: run_defs spec_defs truncate_float_value)

section \<open>A supplied size is not kept\<close>




section \<open>When the constructor succeeds\<close>




































section \<open>Properties of the standardisation\<close>

lemma map_add_same: "kw ++ kw = (kw :: 'a \<rightharpoonup> 'b)"
  by (rule ext) (simp add: map_add_def split: option.splits)

text \<open>
  C4: applying \<open>standardize\<close> twice in succession to the same figure gives the
  figure state that the first application gave.
\<close>

theorem standardize_idempotent:
  "standardize self (standardize self fig) = standardize self fig"
  by (cases "annotations fig")
     (simp_all add: standardize_def update_yaxes_def update_xaxes_def update_layout_def
        Let_def map_add_same o_def)

text \<open>
  C5: a figure with N annotations has N annotations after \<open>standardize\<close>, and the
  font of every one of them is the subtitle font of the formatter.
\<close>

theorem annotations_get_subtitle_font:
  "length (annotation_list (standardize self fig)) = length (annotation_list fig) \<and>
   (\<forall>annotation \<in> set (annotation_list (standardize self fig)).
       annotation ''font'' = Some (subtitle_font self))"
  by (cases "annotations fig")
     (auto simp: standardize_def annotation_list_def update_yaxes_def update_xaxes_def
        update_layout_def Let_def)

theorem annotations_get_subtitle_font_witness:
  "length (annotation_list (standardize (fst (defaults [])) example_figure)) = 2 \<and>
   list_all (\<lambda>annotation. annotation ''font'' = Some (PyRef 1))
     (annotation_list (standardize (fst (defaults [])) example_figure))"
  using annotations_get_subtitle_font [of "fst (defaults [])" example_figure]
  by (simp add: list_all_iff defaults_eq annotation_list_def example_figure_def)

lemma set_attributes_title_x:
  assumes "\<forall>k. k \<noteq> ''title_x'' \<longrightarrow> kw1 k = kw2 k"
  shows "set_attributes kw2 d =
         (set_attributes kw1 d)\<lparr>title_x := kwargs_get kw2 ''title_x'' (title_x d)\<rparr>"
  using assms by (simp add: set_attributes_def kwargs_get_def)

lemma init_title_x:
  assumes "\<forall>k. k \<noteq> ''title_x'' \<longrightarrow> kw1 k = kw2 k"
    and "init kw1 h = (Inr self1, h1)"
  shows "init kw2 h =
         (Inr (self1\<lparr>title_x := kwargs_get kw2 ''title_x'' (PyFloat float_0_5)\<rparr>), h1)"
  using assms(2) unfolding init_def defaults_eq set_attributes_title_x [OF assms(1)]
  by (auto simp: Let_def split: sum.splits)

lemma standardize_title_x: "standardize (self\<lparr>title_x := v\<rparr>) fig = standardize self fig"
  by (simp add: standardize_def Let_def cong: option.case_cong)

lemma standardize_layout_title_x: "layout (standardize self fig) ''title_x'' = layout fig ''title_x''"
  by (cases "annotations fig")
     (simp_all add: standardize_def update_yaxes_def update_xaxes_def update_layout_def Let_def)

text \<open>
  C6: two formatters constructed from options that differ only in \<open>title_x\<close> leave
  the same store and standardize every figure to the same state; the title alignment
  of the figure is what it was before the call.
\<close>

theorem title_x_has_no_effect:
  assumes "\<forall>k. k \<noteq> ''title_x'' \<longrightarrow> kwargs1 k = kwargs2 k"
    and "init kwargs1 h = (Inr self1, h1)"
  shows "\<exists>self2. init kwargs2 h = (Inr self2, h1) \<and>
           standardize self2 fig = standardize self1 fig \<and>
           layout (standardize self2 fig) ''title_x'' = layout fig ''title_x''"
  using init_title_x [OF assms] by (simp add: standardize_title_x standardize_layout_title_x)

theorem title_x_has_no_effect_witness:
  "\<exists>self1 h1 self2.
     init [''title_x'' \<mapsto> PyFloat (Finite False 1 (- 2))] [] = (Inr self1, h1) \<and>
     init Map.empty [] = (Inr self2, h1) \<and>
     title_x self1 \<noteq> title_x self2 \<and>
     standardize self2 example_figure = standardize self1 example_figure \<and>
     layout (standardize self2 example_figure) ''title_x'' = layout example_figure ''title_x''"
proof -
  have "\<exists>self1 h1. init [''title_x'' \<mapsto> PyFloat (Finite False 1 (- 2))] [] = (Inr self1, h1) \<and>
          title_x self1 = PyFloat (Finite False 1 (- 2))"
    by (simp add: run_defs)
  then obtain self1 h1 where
    ok: "init [''title_x'' \<mapsto> PyFloat (Finite False 1 (- 2))] [] = (Inr self1, h1)"
    and x: "title_x self1 = PyFloat (Finite False 1 (- 2))"
    by blast
  have agree: "\<forall>k. k \<noteq> ''title_x'' \<longrightarrow>
      [''title_x'' \<mapsto> PyFloat (Finite False 1 (- 2))] k = Map.empty k"
    by simp
  from title_x_has_no_effect [OF agree ok, of example_figure] obtain self2 where
    2: "init Map.empty [] = (Inr self2, h1)"
      "standardize self2 example_figure = standardize self1 example_figure"
      "layout (standardize self2 example_figure) ''title_x'' = layout example_figure ''title_x''"
    by blast
  from 2(1) have "title_x self2 = PyFloat float_0_5"
    unfolding init_def defaults_eq
    by (auto simp: Let_def set_attributes_def kwargs_get_def split: sum.splits)
  with x have "title_x self1 \<noteq> title_x self2" by (simp add: float_0_5_def)
  with ok 2 show ?thesis by blast
qed

end
